theory Spec2Isabelle
  imports Main
begin

section \<open>The property channel of CjrlDynamicRobot\<close>

text \<open>
  \<^verbatim>\<open>interfaces/jrlDynamicRobot.h\<close> declares the abstract class \<^verbatim>\<open>CjrlDynamicRobot\<close>.
  Every member function but three is pure virtual (\<^verbatim>\<open>= 0\<close>) and has no body in this
  package. The three that have a body are the defaults of the property channel:
  \<^verbatim>\<open>
  virtual bool isSupported(const std::string &inProperty)
  {return false;}

  virtual bool getProperty(const std::string &inProperty,
                           std::string& outValue)
  {return false;}

  virtual bool setProperty(std::string &inProperty,
                           const std::string& inValue)
  {return false;}
  \<close>
  The class has no data member: the state of a robot is whatever a derived class stores.
  It is the type variable \<open>'robot\<close> below. The member functions are not \<^verbatim>\<open>const\<close> and two
  of them take a \<^verbatim>\<open>std::string&\<close> that the callee could write, so each model takes the
  object and the writable argument and returns them next to the \<^verbatim>\<open>bool\<close>.
\<close>

text \<open>\<^verbatim>\<open>isSupported\<close>: the returned \<^verbatim>\<open>bool\<close> and the object after the call.\<close>

definition isSupported :: "'robot \<Rightarrow> string \<Rightarrow> bool \<times> 'robot" where
  "isSupported this inProperty = (False, this)"

text \<open>
  \<^verbatim>\<open>getProperty\<close>: the returned \<^verbatim>\<open>bool\<close>, \<^verbatim>\<open>outValue\<close> after the call and the object after
  the call.
\<close>

definition getProperty :: "'robot \<Rightarrow> string \<Rightarrow> string \<Rightarrow> bool \<times> string \<times> 'robot" where
  "getProperty this inProperty outValue = (False, outValue, this)"

text \<open>
  \<^verbatim>\<open>setProperty\<close>: the returned \<^verbatim>\<open>bool\<close>, \<^verbatim>\<open>inProperty\<close> after the call (the header passes
  it by non-const reference) and the object after the call.
\<close>

definition setProperty :: "'robot \<Rightarrow> string \<Rightarrow> string \<Rightarrow> bool \<times> string \<times> 'robot" where
  "setProperty this inProperty inValue = (False, inProperty, this)"

section \<open>The kinematic chain and \<^verbatim>\<open>jointsBetween\<close>\<close>

text \<open>
  \<^verbatim>\<open>jointsBetween\<close> is declared in \<^verbatim>\<open>interfaces/jrlDynamicRobot.h\<close> as
  \<^verbatim>\<open>
  virtual std::vector<CjrlJoint*> jointsBetween(const CjrlJoint& inStartJoint,
                                                const CjrlJoint& inEndJoint) const = 0;
  \<close>
  It is pure virtual: the package holds no body for it, and \<^verbatim>\<open>jrlJoint.h\<close>, which declares
  \<^verbatim>\<open>CjrlJoint\<close>, is not available. The definitions of this section are therefore written
  from the specification (its sections 3 and 4.1 and property 3 of its section 8), not
  from code, and what is proved of them is proved of the specification's algorithm only.
\<close>












section \<open>Facts about the chain model\<close>


























section \<open>Theorems\<close>

text \<open>
  C9. In the base-class default implementation of the property channel, for every
  property name, \<^verbatim>\<open>isSupported(name)\<close> returns false, \<^verbatim>\<open>getProperty(name, outValue)\<close>
  returns false and leaves \<^verbatim>\<open>outValue\<close> as it was, and \<^verbatim>\<open>setProperty(name, value)\<close> returns
  false; none of the three changes the robot (nor, for \<^verbatim>\<open>setProperty\<close>, the name it was
  handed by reference).
\<close>

theorem property_channel_defaults:
  "isSupported robot name = (False, robot)
   \<and> getProperty robot name outValue = (False, outValue, robot)
   \<and> setProperty robot name value = (False, name, robot)"
  by (simp add: isSupported_def getProperty_def setProperty_def)




end
